theory Spec2Isabelle
  imports Main "HOL-Library.Word"
begin

section \<open>The data model of BackendD3D.h\<close>

subsection \<open>Scalar and vector types\<close>

text \<open>
  The header uses the fixed-width aliases \<open>u16\<close>, \<open>u32\<close>, \<open>i16\<close> and the two-component
  vectors \<open>u16x2\<close>, \<open>i16x2\<close> (members \<open>x\<close> and \<open>y\<close>). A vector is a pair here, \<open>x\<close> first.
  A signed 16-bit value is a 16-bit word whose value is read by \<open>sint\<close>, an unsigned one
  is read by \<open>unat\<close>.
\<close>

type_synonym u16 = "16 word"
type_synonym u32 = "32 word"
type_synonym i16 = "16 word"
type_synonym u16x2 = "u16 \<times> u16"
type_synonym i16x2 = "i16 \<times> i16"

subsection \<open>ShadingType\<close>

text \<open>
  \<open>enum class ShadingType : u32\<close>. Two enumerators share the value 0 and two more are
  aliases of others, so the enumeration is its underlying \<open>u32\<close> with one named constant
  per enumerator, each defined by the initialiser the header gives it.
\<close>

type_synonym ShadingType = u32

definition Default :: ShadingType where
  "Default = 0"

definition Background :: ShadingType where
  "Background = 0"

definition TextGrayscale :: ShadingType where
  "TextGrayscale = 1"

definition TextClearType :: ShadingType where
  "TextClearType = 2"

definition TextPassthrough :: ShadingType where
  "TextPassthrough = 3"

definition DottedLine :: ShadingType where
  "DottedLine = 4"

definition DottedLineWide :: ShadingType where
  "DottedLineWide = 5"

definition SolidLine :: ShadingType where
  "SolidLine = 6"

definition Cursor :: ShadingType where
  "Cursor = 7"

definition Selection :: ShadingType where
  "Selection = 8"

definition TextDrawingFirst :: ShadingType where
  "TextDrawingFirst = TextGrayscale"

definition TextDrawingLast :: ShadingType where
  "TextDrawingLast = SolidLine"

subsection \<open>QuadInstance\<close>

text \<open>Field names carry the prefix \<open>q_\<close>: \<open>size\<close> is a constant of HOL.\<close>

record QuadInstance =
  q_shadingType :: ShadingType
  q_position :: i16x2
  q_size :: u16x2
  q_texcoord :: u16x2
  q_color :: u32

subsection \<open>AtlasGlyphEntryData and AtlasGlyphEntry\<close>

text \<open>The member \<open>size\<close> of the header is \<open>size_u\<close> here.\<close>

record AtlasGlyphEntryData =
  shadingType :: u16
  overlapSplit :: u16
  offset :: i16x2
  size_u :: u16x2
  texcoord :: u16x2

definition GetShadingType :: "AtlasGlyphEntryData \<Rightarrow> ShadingType" where
  "GetShadingType d = ucast (shadingType d)"

text \<open>The member \<open>_occupied\<close> of the header is \<open>occupied\<close> here.\<close>

record AtlasGlyphEntry =
  glyphIndex :: u16
  occupied :: u16
  data :: AtlasGlyphEntryData

text \<open>\<open>operator==(u16 key)\<close>\<close>

definition AtlasGlyphEntry_eq :: "AtlasGlyphEntry \<Rightarrow> u16 \<Rightarrow> bool" where
  "AtlasGlyphEntry_eq e key = (glyphIndex e = key)"

text \<open>\<open>operator bool()\<close>\<close>

definition AtlasGlyphEntry_bool :: "AtlasGlyphEntry \<Rightarrow> bool" where
  "AtlasGlyphEntry_bool e = (occupied e \<noteq> 0)"


subsection \<open>Font-face keys and entries\<close>

text \<open>
  \<open>IDWriteFontFace2*\<close>: the address of a font-face object, 0 for the null pointer. Two
  pointers are equal when the addresses are; what the objects hold plays no part.
\<close>

type_synonym IDWriteFontFace2_ptr = nat

text \<open>
  Modelled from the spec: the enumeration \<open>LineRendition\<close>, declared outside this header
  (the header only names its enumerator \<open>SingleWidth\<close>). The spec lists the modes as
  single, double-width, double-height-top and double-height-bottom.
\<close>

datatype LineRendition = SingleWidth | DoubleWidth | DoubleHeightTop | DoubleHeightBottom

record AtlasFontFaceKey =
  fontFace :: IDWriteFontFace2_ptr
  lineRendition :: LineRendition

text \<open>
  The members \<open>fontFace\<close> and \<open>lineRendition\<close> of \<open>AtlasFontFaceEntryInner\<close> carry the
  prefix \<open>i_\<close>, since the key has members of the same names. \<open>i_fontFace\<close> is what
  \<open>fontFace.get()\<close> returns. The two flat sets are the lists of their elements.
\<close>

record AtlasFontFaceEntryInner =
  i_fontFace :: IDWriteFontFace2_ptr
  i_lineRendition :: LineRendition
  glyphs :: "AtlasGlyphEntry list"
  boxGlyphs :: "u16 list"

text \<open>What \<open>std::make_unique<AtlasFontFaceEntryInner>()\<close> constructs.\<close>

definition AtlasFontFaceEntryInner_new :: AtlasFontFaceEntryInner where
  "AtlasFontFaceEntryInner_new =
     \<lparr>i_fontFace = 0, i_lineRendition = SingleWidth, glyphs = [], boxGlyphs = []\<rparr>"

text \<open>\<open>inner\<close> is a \<open>std::unique_ptr\<close>: \<open>None\<close> when it is null.\<close>

record AtlasFontFaceEntry =
  inner :: "AtlasFontFaceEntryInner option"

text \<open>
  \<open>operator==(const AtlasFontFaceKey& key)\<close>. It dereferences \<open>inner\<close> without a check; on a
  null \<open>inner\<close> the C++ has no defined result, which is \<open>None\<close> here.
\<close>

definition AtlasFontFaceEntry_eq :: "AtlasFontFaceEntry \<Rightarrow> AtlasFontFaceKey \<Rightarrow> bool option" where
  "AtlasFontFaceEntry_eq e key =
     (case inner e of
        None \<Rightarrow> None
      | Some i \<Rightarrow> Some (i_fontFace i = fontFace key \<and> i_lineRendition i = lineRendition key))"

text \<open>\<open>operator bool()\<close>\<close>

definition AtlasFontFaceEntry_bool :: "AtlasFontFaceEntry \<Rightarrow> bool" where
  "AtlasFontFaceEntry_bool e = (inner e \<noteq> None)"

text \<open>\<open>operator=(const AtlasFontFaceKey& key)\<close>: the entry after the assignment.\<close>

definition AtlasFontFaceEntry_assign :: "AtlasFontFaceEntry \<Rightarrow> AtlasFontFaceKey \<Rightarrow> AtlasFontFaceEntry" where
  "AtlasFontFaceEntry_assign e key =
     e\<lparr>inner := Some (AtlasFontFaceEntryInner_new
                        \<lparr>i_fontFace := fontFace key, i_lineRendition := lineRendition key\<rparr>)\<rparr>"

text \<open>
  For comparison only: equality of what two font-face pointers point to, in a store \<open>h\<close> of
  font-face objects. The header's \<open>operator==\<close> never looks into a store.
\<close>

definition sameFaceContents :: "(IDWriteFontFace2_ptr \<Rightarrow> 'face option) \<Rightarrow>
    IDWriteFontFace2_ptr \<Rightarrow> IDWriteFontFace2_ptr \<Rightarrow> bool" where
  "sameFaceContents h p q = (h p = h q)"

section \<open>The quad instance buffer\<close>

text \<open>
  The header declares the storage \<open>_instances\<close>, the logical count \<open>_instancesCount\<close> and the
  member functions \<open>_appendQuad\<close>, \<open>_bumpInstancesSize\<close> and \<open>_flushQuads\<close>; their bodies are
  not part of it. A slot of the storage that was never written is \<open>None\<close> (the header
  leaves \<open>QuadInstance\<close> uninitialised on purpose). The capacity is the length of the
  storage.
\<close>

record QuadInstanceBuffer =
  instances :: "QuadInstance option list"
  instancesCount :: nat

text \<open>
  Modelled from the spec: the body of \<open>_bumpInstancesSize\<close>, which is missing. The spec's
  words: \<^emph>\<open>doubling capacity (minimum starting capacity \<ge> 32) ...; growth must preserve
  already-written instances\<close>. The starting capacity is the parameter \<open>minCapacity\<close>, which
  the spec bounds from below by 32. The old storage is copied to the front of the new one.
\<close>

definition bumpInstancesSize :: "nat \<Rightarrow> QuadInstanceBuffer \<Rightarrow> QuadInstanceBuffer" where
  "bumpInstancesSize minCapacity b =
     (let newSize = max minCapacity (2 * length (instances b))
      in b\<lparr>instances := instances b @ replicate (newSize - length (instances b)) None\<rparr>)"

text \<open>
  Modelled from the spec: the body of \<open>_appendQuad\<close>, which is missing. The spec's words:
  \<^emph>\<open>append() -> mutable reference to new instance slot\<close>, growing \<^emph>\<open>when the next append
  would exceed current capacity\<close>. The reference is the index of the slot in the storage.
\<close>

definition appendQuad :: "nat \<Rightarrow> QuadInstanceBuffer \<Rightarrow> nat \<times> QuadInstanceBuffer" where
  "appendQuad minCapacity b =
     (let b' = (if length (instances b) < instancesCount b + 1
                then bumpInstancesSize minCapacity b else b)
      in (instancesCount b', b'\<lparr>instancesCount := instancesCount b' + 1\<rparr>))"

text \<open>An append together with the caller's write of \<open>q\<close> through the returned reference.\<close>

definition appendQuadWith :: "nat \<Rightarrow> QuadInstanceBuffer \<Rightarrow> QuadInstance \<Rightarrow> QuadInstanceBuffer" where
  "appendQuadWith minCapacity b q =
     (case appendQuad minCapacity b of
        (i, b') \<Rightarrow> b'\<lparr>instances := (instances b')[i := Some q]\<rparr>)"

text \<open>
  Modelled from the spec: the body of \<open>_flushQuads\<close>, which is missing. The spec's words:
  \<^emph>\<open>flush() uploads the contiguous instance range to the GPU and issues one draw call
  covering it, then resets the logical count to zero (storage capacity is retained)\<close>. The
  result is the uploaded range and the buffer afterwards.
\<close>

definition flushQuads :: "QuadInstanceBuffer \<Rightarrow> QuadInstance option list \<times> QuadInstanceBuffer" where
  "flushQuads b = (take (instancesCount b) (instances b), b\<lparr>instancesCount := 0\<rparr>)"

text \<open>
  The buffer holds exactly the instances \<open>ps\<close>, in order, in its first slots: the invariant
  of the proofs below.
\<close>

definition buffer_holds :: "QuadInstanceBuffer \<Rightarrow> QuadInstance list \<Rightarrow> bool" where
  "buffer_holds b ps =
     (instancesCount b = length ps \<and> length ps \<le> length (instances b)
      \<and> take (length ps) (instances b) = map Some ps)"

section \<open>Retrying a glyph when the atlas is full\<close>

text \<open>
  The header declares \<open>[[nodiscard]] bool _drawGlyph(...)\<close> and
  \<open>void _drawGlyphPrepareRetry(...)\<close>; their bodies and their caller \<open>_drawText\<close> are not
  part of it. Both are parameters here: \<open>drawGlyph s g\<close> returns whether the glyph \<open>g\<close> was
  placed and the state afterwards, \<open>prepareRetry\<close> is the atlas reset.
\<close>

datatype error = AtlasTooSmall

datatype event = DrawGlyph | PrepareRetry

text \<open>
  Modelled from the spec: the Text emitter's handling of a failed placement, which is
  missing. The spec's words: \<^emph>\<open>Text emitter triggers atlas reset and reissues the current
  glyph resolution exactly once; a second failure is escalated as AtlasTooSmall\<close>,
  \<^emph>\<open>implemented here as an explicit one-shot retry flag\<close>. The flag is \<open>retried\<close>. The
  result carries the calls made, in order.
\<close>

function resolveGlyph :: "('s \<Rightarrow> 'g \<Rightarrow> bool \<times> 's) \<Rightarrow> ('s \<Rightarrow> 's) \<Rightarrow> bool \<Rightarrow> 'g \<Rightarrow> 's \<Rightarrow>
    (error + unit) \<times> 's \<times> event list" where
  "resolveGlyph drawGlyph prepareRetry retried g s =
     (let (placed, s1) = drawGlyph s g in
      if placed then (Inr (), s1, [DrawGlyph])
      else if retried then (Inl AtlasTooSmall, s1, [DrawGlyph])
      else (let (r, s2, evs) = resolveGlyph drawGlyph prepareRetry True g (prepareRetry s1)
            in (r, s2, DrawGlyph # PrepareRetry # evs)))"
  by pat_completeness auto
termination
  by (relation "measure (\<lambda>(d, p, retried, g, s). if retried then 0 else 1)") auto

section \<open>Properties of the shading types\<close>

lemmas ShadingType_defs =
  Default_def Background_def TextGrayscale_def TextClearType_def TextPassthrough_def
  DottedLine_def DottedLineWide_def SolidLine_def Cursor_def Selection_def
  TextDrawingFirst_def TextDrawingLast_def

lemma u32_between_1_and_6: "(1 \<le> v \<and> v \<le> 6) = (v \<in> {1, 2, 3, 4, 5, 6 :: u32})"
proof
  assume "1 \<le> v \<and> v \<le> 6"
  then have "1 \<le> unat v" and "unat v \<le> 6"
    by (simp_all add: word_le_nat_alt)
  then have "unat v \<in> {1, 2, 3, 4, 5, 6}"
    by auto
  then show "v \<in> {1, 2, 3, 4, 5, 6 :: u32}"
    by (auto simp: word_unat_eq_iff)
next
  assume "v \<in> {1, 2, 3, 4, 5, 6 :: u32}"
  then show "1 \<le> v \<and> v \<le> 6"
    by (auto simp: word_le_nat_alt)
qed

text \<open>
  The six enumerators TextGrayscale, TextClearType, TextPassthrough, DottedLine,
  DottedLineWide and SolidLine have the values 1 to 6 in this order, TextDrawingFirst is 1
  and TextDrawingLast is 6, and a shading type lies between TextDrawingFirst and
  TextDrawingLast exactly when it is one of the six. The enumerators at or above SolidLine
  are SolidLine, Cursor and Selection. How a shading type is drawn is decided by the pixel
  shader, which is not part of the header.
\<close>

lemma ShadingType_text_drawing_range:
  "map unat [TextGrayscale, TextClearType, TextPassthrough, DottedLine, DottedLineWide, SolidLine]
     = [1, 2, 3, 4, 5, 6]
   \<and> unat TextDrawingFirst = 1 \<and> unat TextDrawingLast = 6
   \<and> (TextDrawingFirst \<le> v \<and> v \<le> TextDrawingLast) =
       (v \<in> {TextGrayscale, TextClearType, TextPassthrough, DottedLine, DottedLineWide, SolidLine})
   \<and> map unat [SolidLine, Cursor, Selection] = [6, 7, 8]"
proof -
  have enum_vals: "map unat [TextGrayscale, TextClearType, TextPassthrough, DottedLine,
      DottedLineWide, SolidLine] = [1, 2, 3, 4, 5, 6]"
    by (simp add: ShadingType_defs)
  have bounds: "unat TextDrawingFirst = 1 \<and> unat TextDrawingLast = 6"
    by (simp add: ShadingType_defs)
  have in_range: "(TextDrawingFirst \<le> v \<and> v \<le> TextDrawingLast) =
      (v \<in> {TextGrayscale, TextClearType, TextPassthrough, DottedLine, DottedLineWide, SolidLine})"
    using u32_between_1_and_6 [of v] by (simp add: ShadingType_defs)
  have above: "map unat [SolidLine, Cursor, Selection] = [6, 7, 8]"
    by (simp add: ShadingType_defs)
  from enum_vals bounds in_range above show ?thesis
    by blast
qed

text \<open>
  Claim C10. Default and Background are the same value, 0. So a quad instance whose shading
  type is Default is one whose shading type is Background, whatever reads the field cannot
  tell them apart, and the value lies below TextDrawingFirst = 1, outside the text-drawing
  range from 1 to 6.
\<close>

theorem ShadingType_Default_is_Background:
  "Default = Background \<and> unat Default = 0 \<and> unat Background = 0
   \<and> (q_shadingType q = Default) = (q_shadingType q = Background)
   \<and> f Default = f Background
   \<and> Default < TextDrawingFirst
   \<and> Default \<notin> {v. TextDrawingFirst \<le> v \<and> v \<le> TextDrawingLast}
   \<and> unat TextDrawingFirst = 1 \<and> unat TextDrawingLast = 6"
  by (simp add: ShadingType_defs)

text \<open>\<open>GetShadingType\<close> widens the stored 16 bits and keeps the value.\<close>

lemma GetShadingType_value: "unat (GetShadingType d) = unat (shadingType d)"
  unfolding GetShadingType_def
  by (simp add: unsigned_ucast_eq take_bit_nat_eq_self_iff)
    (rule less_trans [OF unsigned_less], simp)

section \<open>Properties of the glyph and font-face entries\<close>


text \<open>
  The two tests are independent: for the key 7, each of the four answers of the pair
  (converts to true, compares equal to 7) is given by some entry.
\<close>

lemma AtlasGlyphEntry_tests_independent:
  "(AtlasGlyphEntry_bool (e\<lparr>glyphIndex := 7, occupied := 1\<rparr>)
      \<and> AtlasGlyphEntry_eq (e\<lparr>glyphIndex := 7, occupied := 1\<rparr>) 7)
   \<and> (AtlasGlyphEntry_bool (e\<lparr>glyphIndex := 8, occupied := 1\<rparr>)
      \<and> \<not> AtlasGlyphEntry_eq (e\<lparr>glyphIndex := 8, occupied := 1\<rparr>) 7)
   \<and> (\<not> AtlasGlyphEntry_bool (e\<lparr>glyphIndex := 7, occupied := 0\<rparr>)
      \<and> AtlasGlyphEntry_eq (e\<lparr>glyphIndex := 7, occupied := 0\<rparr>) 7)
   \<and> (\<not> AtlasGlyphEntry_bool (e\<lparr>glyphIndex := 8, occupied := 0\<rparr>)
      \<and> \<not> AtlasGlyphEntry_eq (e\<lparr>glyphIndex := 8, occupied := 0\<rparr>) 7)"
  by (simp add: AtlasGlyphEntry_bool_def AtlasGlyphEntry_eq_def)

text \<open>
  Claim C7. An AtlasFontFaceEntry with a non-null inner matches an AtlasFontFaceKey exactly
  when the stored fontFace pointer equals the key's pointer and the stored lineRendition
  equals the key's. An entry assigned from a key \<open>key'\<close> therefore matches a key \<open>key\<close>
  exactly when both hold the same pointer and the same line rendition.
\<close>

theorem AtlasFontFaceEntry_eq_pointer:
  "AtlasFontFaceEntry_eq e key =
     map_option (\<lambda>i. i_fontFace i = fontFace key \<and> i_lineRendition i = lineRendition key) (inner e)
   \<and> AtlasFontFaceEntry_eq (AtlasFontFaceEntry_assign e key') key =
       Some (fontFace key' = fontFace key \<and> lineRendition key' = lineRendition key)
   \<and> AtlasFontFaceEntry_bool (AtlasFontFaceEntry_assign e key')"
  by (simp add: AtlasFontFaceEntry_eq_def AtlasFontFaceEntry_assign_def AtlasFontFaceEntry_bool_def
      AtlasFontFaceEntryInner_new_def split: option.split)

text \<open>
  The comparison is not one of contents: two font-face objects at the addresses 1 and 2
  that hold the same contents give entries and keys that do not match.
\<close>

lemma AtlasFontFaceEntry_eq_not_structural:
  "sameFaceContents (\<lambda>p. if p = 1 \<or> p = 2 then Some ''Consolas'' else None) 1 2
   \<and> AtlasFontFaceEntry_eq
        (AtlasFontFaceEntry_assign \<lparr>inner = None\<rparr> \<lparr>fontFace = 1, lineRendition = SingleWidth\<rparr>)
        \<lparr>fontFace = 2, lineRendition = SingleWidth\<rparr> = Some False"
  by (simp add: sameFaceContents_def AtlasFontFaceEntry_eq_def AtlasFontFaceEntry_assign_def
      AtlasFontFaceEntryInner_new_def)

section \<open>Properties of the quad instance buffer\<close>

lemma appendQuadWith_step:
  assumes c: "0 < c" and h: "buffer_holds b ps"
  shows "buffer_holds (appendQuadWith c b q) (ps @ [q])"
proof (cases "length (instances b) < instancesCount b + 1")
  case True
  with h have full: "length (instances b) = length ps"
    by (simp add: buffer_holds_def)
  have store: "instances b = map Some ps"
    using h full by (simp add: buffer_holds_def)
  have "length ps < max c (2 * length ps)"
    using c by (cases "length ps") auto
  then obtain k where k: "max c (2 * length ps) - length ps = Suc k"
    by (metis Suc_diff_Suc)
  show ?thesis
    using True h full store k
    by (simp add: buffer_holds_def appendQuadWith_def appendQuad_def bumpInstancesSize_def
        Let_def list_update_append)
next
  case False
  with h have lt: "length ps < length (instances b)"
    by (simp add: buffer_holds_def)
  have "take (Suc (length ps)) ((instances b)[length ps := Some q]) = map Some ps @ [Some q]"
    using h lt by (simp add: buffer_holds_def take_Suc_conv_app_nth)
  then show ?thesis
    using False h lt
    by (simp add: buffer_holds_def appendQuadWith_def appendQuad_def Let_def)
qed

lemma appendQuadWith_foldl:
  assumes c: "0 < c"
  shows "buffer_holds b ps \<Longrightarrow> buffer_holds (foldl (appendQuadWith c) b qs) (ps @ qs)"
proof (induction qs arbitrary: b ps)
  case Nil
  then show ?case by simp
next
  case (Cons q qs)
  from appendQuadWith_step [OF c Cons.prems, of q]
  have "buffer_holds (appendQuadWith c b q) (ps @ [q])" .
  from Cons.IH [OF this] show ?case by simp
qed

lemma appendQuadWith_capacity:
  "length (instances (appendQuadWith c b q)) =
     (if length (instances b) < instancesCount b + 1
      then max (length (instances b)) (max c (2 * length (instances b)))
      else length (instances b))"
  by (simp add: appendQuadWith_def appendQuad_def bumpInstancesSize_def Let_def)

lemma bumpInstancesSize_keeps:
  "take (length (instances b)) (instances (bumpInstancesSize c b)) = instances b"
  by (simp add: bumpInstancesSize_def Let_def)

lemma appendQuadWith_capacity_ok:
  assumes "0 < c" and "instances b = [] \<or> c \<le> length (instances b)"
  shows "c \<le> length (instances (appendQuadWith c b q))
      \<or> instances (appendQuadWith c b q) = []"
proof -
  have "c \<le> length (instances (appendQuadWith c b q))
      \<or> length (instances (appendQuadWith c b q)) = 0"
    using assms by (cases "instances b = []") (auto simp: appendQuadWith_capacity)
  then show ?thesis by auto
qed

lemma appendQuadWith_foldl_capacity_ok:
  assumes c: "0 < c"
  shows "instances b = [] \<or> c \<le> length (instances b) \<Longrightarrow>
     instances (foldl (appendQuadWith c) b qs) = []
       \<or> c \<le> length (instances (foldl (appendQuadWith c) b qs))"
proof (induction qs arbitrary: b)
  case Nil
  then show ?case by simp
next
  case (Cons q qs)
  from appendQuadWith_capacity_ok [OF c Cons.prems, of q]
  have "instances (appendQuadWith c b q) = [] \<or> c \<le> length (instances (appendQuadWith c b q))"
    by blast
  from Cons.IH [OF this] show ?case by simp
qed

text \<open>
  Claim C4, on the buffer modelled from the spec. Start from a buffer whose logical count
  is 0 (fresh, or just flushed) and whose capacity is 0 or at least the starting capacity,
  the starting capacity being at least 32. After the appends of \<open>qs\<close>, a flush uploads
  exactly \<open>qs\<close>, in the order of the appends, and leaves the buffer with the logical count
  0 and the storage as it was. One more append of \<open>q\<close> keeps the instances \<open>qs\<close> in their
  slots. The capacity stays as it is when the append fits; when it does not, it becomes
  the starting capacity if it was 0 and twice the old capacity otherwise. After an append
  the capacity is at least 32.
\<close>

theorem quad_buffer_append_flush:
  assumes c: "32 \<le> minCapacity" and b0: "instancesCount b0 = 0"
    and cap0: "instances b0 = [] \<or> minCapacity \<le> length (instances b0)"
  shows "flushQuads (foldl (appendQuadWith minCapacity) b0 qs) =
           (map Some qs, (foldl (appendQuadWith minCapacity) b0 qs)\<lparr>instancesCount := 0\<rparr>)
       \<and> length (fst (flushQuads (foldl (appendQuadWith minCapacity) b0 qs))) = length qs
       \<and> (let b1 = foldl (appendQuadWith minCapacity) b0 qs;
               b2 = appendQuadWith minCapacity b1 q
           in take (length qs) (instances b2) = map Some qs
            \<and> length (instances b2) =
                (if length qs < length (instances b1) then length (instances b1)
                 else if instances b1 = [] then minCapacity
                 else 2 * length (instances b1))
            \<and> 32 \<le> length (instances b2))"
proof -
  let ?b1 = "foldl (appendQuadWith minCapacity) b0 qs"
  let ?b2 = "appendQuadWith minCapacity ?b1 q"
  have pos: "0 < minCapacity"
    using c by simp
  have "buffer_holds b0 []"
    using b0 by (simp add: buffer_holds_def)
  from appendQuadWith_foldl [OF pos this, of qs]
  have h1: "buffer_holds ?b1 qs"
    by simp
  from appendQuadWith_step [OF pos h1, of q]
  have h2: "buffer_holds ?b2 (qs @ [q])" .
  have flush: "flushQuads ?b1 = (map Some qs, ?b1\<lparr>instancesCount := 0\<rparr>)"
    using h1 by (simp add: flushQuads_def buffer_holds_def)
  have "take (length qs) (take (length (qs @ [q])) (instances ?b2)) =
      take (length qs) (map Some (qs @ [q]))"
    using h2 by (simp only: buffer_holds_def)
  then have keep: "take (length qs) (instances ?b2) = map Some qs"
    by simp
  have cnt: "instancesCount ?b1 = length qs" and le: "length qs \<le> length (instances ?b1)"
    using h1 by (simp_all add: buffer_holds_def)
  have ok1: "instances ?b1 = [] \<or> minCapacity \<le> length (instances ?b1)"
    by (rule appendQuadWith_foldl_capacity_ok [OF pos cap0])
  have cap: "length (instances ?b2) =
      (if length qs < length (instances ?b1) then length (instances ?b1)
       else if instances ?b1 = [] then minCapacity
       else 2 * length (instances ?b1))"
    using cnt le ok1 by (auto simp: appendQuadWith_capacity)
  have "instances ?b2 \<noteq> []"
    using h2 by (auto simp: buffer_holds_def)
  with appendQuadWith_capacity_ok [OF pos ok1, of q] c
  have big: "32 \<le> length (instances ?b2)"
    by auto
  show ?thesis
    using flush keep cap big by (simp add: Let_def)
qed

text \<open>
  The theorem at a fresh buffer with starting capacity 32: a Cursor quad and a Selection
  quad are appended and flushed.
\<close>

theorem quad_buffer_append_flush_witness:
  "32 \<le> (32 :: nat)
   \<and> instancesCount \<lparr>instances = [], instancesCount = 0\<rparr> = 0
   \<and> instances \<lparr>instances = [], instancesCount = 0\<rparr> = []
   \<and> fst (flushQuads (foldl (appendQuadWith 32) \<lparr>instances = [], instancesCount = 0\<rparr>
        [\<lparr>q_shadingType = Cursor, q_position = (0, 0), q_size = (1, 1),
            q_texcoord = (0, 0), q_color = 0\<rparr>,
         \<lparr>q_shadingType = Selection, q_position = (1, 0), q_size = (1, 1),
            q_texcoord = (0, 0), q_color = 0\<rparr>])) =
       [Some \<lparr>q_shadingType = Cursor, q_position = (0, 0), q_size = (1, 1),
            q_texcoord = (0, 0), q_color = 0\<rparr>,
        Some \<lparr>q_shadingType = Selection, q_position = (1, 0), q_size = (1, 1),
            q_texcoord = (0, 0), q_color = 0\<rparr>]"
proof -
  have c: "32 \<le> (32 :: nat)"
    by simp
  have b0: "instancesCount \<lparr>instances = [], instancesCount = 0\<rparr> = 0"
    by simp
  have cap0: "instances \<lparr>instances = [], instancesCount = 0\<rparr> = []
      \<or> (32 :: nat) \<le> length (instances \<lparr>instances = [], instancesCount = 0\<rparr>)"
    by simp
  from quad_buffer_append_flush [OF c b0 cap0, where qs =
      "[\<lparr>q_shadingType = Cursor, q_position = (0, 0), q_size = (1, 1),
            q_texcoord = (0, 0), q_color = 0\<rparr>,
        \<lparr>q_shadingType = Selection, q_position = (1, 0), q_size = (1, 1),
            q_texcoord = (0, 0), q_color = 0\<rparr>]"]
  show ?thesis
    by simp
qed

text \<open>
  Growth at work: 32 appends fill a fresh buffer of starting capacity 32, the 33rd doubles
  the capacity to 64, and the flush uploads all 33 in order.
\<close>

lemma quad_buffer_growth_example:
  "length (instances (foldl (appendQuadWith 32) \<lparr>instances = [], instancesCount = 0\<rparr>
      (replicate 32 \<lparr>q_shadingType = Cursor, q_position = (0, 0), q_size = (1, 1),
            q_texcoord = (0, 0), q_color = 0\<rparr>))) = 32
   \<and> length (instances (foldl (appendQuadWith 32) \<lparr>instances = [], instancesCount = 0\<rparr>
      (replicate 33 \<lparr>q_shadingType = Cursor, q_position = (0, 0), q_size = (1, 1),
            q_texcoord = (0, 0), q_color = 0\<rparr>))) = 64
   \<and> fst (flushQuads (foldl (appendQuadWith 32) \<lparr>instances = [], instancesCount = 0\<rparr>
      (replicate 33 \<lparr>q_shadingType = Cursor, q_position = (0, 0), q_size = (1, 1),
            q_texcoord = (0, 0), q_color = 0\<rparr>))) =
      replicate 33 (Some \<lparr>q_shadingType = Cursor, q_position = (0, 0), q_size = (1, 1),
            q_texcoord = (0, 0), q_color = 0\<rparr>)"
  by code_simp

section \<open>Properties of the retry\<close>

lemma resolveGlyph_retried:
  "resolveGlyph drawGlyph prepareRetry True g s =
     (if fst (drawGlyph s g) then Inr () else Inl AtlasTooSmall, snd (drawGlyph s g), [DrawGlyph])"
  by (simp add: case_prod_beta Let_def)

text \<open>
  Claim C2, on the retry modelled from the spec. Entered with the retry flag clear, the
  resolution of a glyph makes one attempt when it succeeds. When the attempt fails it
  makes one atlas reset and one more attempt, in this order, and nothing else; the result
  of the second attempt decides: success, or the error AtlasTooSmall. So there is at most
  one reset and there are at most two attempts, and a glyph that was not placed is always
  reported as AtlasTooSmall.
\<close>

theorem resolveGlyph_single_retry:
  "resolveGlyph drawGlyph prepareRetry False g s =
     (if fst (drawGlyph s g) then (Inr (), snd (drawGlyph s g), [DrawGlyph])
      else (if fst (drawGlyph (prepareRetry (snd (drawGlyph s g))) g)
            then Inr () else Inl AtlasTooSmall,
            snd (drawGlyph (prepareRetry (snd (drawGlyph s g))) g),
            [DrawGlyph, PrepareRetry, DrawGlyph]))
   \<and> length (filter (\<lambda>e. e = PrepareRetry)
         (snd (snd (resolveGlyph drawGlyph prepareRetry False g s)))) \<le> 1
   \<and> length (filter (\<lambda>e. e = DrawGlyph)
         (snd (snd (resolveGlyph drawGlyph prepareRetry False g s)))) \<le> 2"
proof -
  have eq: "resolveGlyph drawGlyph prepareRetry False g s =
     (if fst (drawGlyph s g) then (Inr (), snd (drawGlyph s g), [DrawGlyph])
      else (if fst (drawGlyph (prepareRetry (snd (drawGlyph s g))) g)
            then Inr () else Inl AtlasTooSmall,
            snd (drawGlyph (prepareRetry (snd (drawGlyph s g))) g),
            [DrawGlyph, PrepareRetry, DrawGlyph]))"
    by (subst resolveGlyph.simps) (simp add: case_prod_beta Let_def resolveGlyph_retried)
  show ?thesis
    unfolding eq by simp
qed

text \<open>
  Two runs. The state is the free space of an atlas of 10 units and a glyph is its size;
  the reset frees the whole atlas. A glyph of size 4 meets 3 free units: the attempt
  fails, the reset and the second attempt follow, and it is placed. A glyph of size 11
  fits no atlas of 10 units: the second attempt fails too and the result is AtlasTooSmall.
\<close>

lemma resolveGlyph_examples:
  "resolveGlyph (\<lambda>s g. if g \<le> s then (True, s - g) else (False, s)) (\<lambda>s. 10) False 4 (3 :: nat) =
     (Inr (), 6, [DrawGlyph, PrepareRetry, DrawGlyph])
   \<and> resolveGlyph (\<lambda>s g. if g \<le> s then (True, s - g) else (False, s)) (\<lambda>s. 10) False 11 (3 :: nat) =
     (Inl AtlasTooSmall, 10, [DrawGlyph, PrepareRetry, DrawGlyph])
   \<and> resolveGlyph (\<lambda>s g. if g \<le> s then (True, s - g) else (False, s)) (\<lambda>s. 10) False 2 (3 :: nat) =
     (Inr (), 1, [DrawGlyph])"
  by (simp add: resolveGlyph_retried)

end
